theory Spec2Isabelle
  imports Complex_Main "HOL-Library.Sublist"
begin

section \<open>Tensors\<close>

text \<open>
  A tensor is the list of its slices along the leading dimension, each slice flattened to a
  list of reals; a tensor of one dimension is a single slice. Elements are real numbers:
  arithmetic is exact, and the rounding of floating-point numbers is not represented.
  \<open>shape\<close> is the list of slice sizes.
\<close>

type_synonym tensor = "real list list"

definition shape :: "tensor \<Rightarrow> nat list" where
  "shape t = map length t"

definition tsub :: "tensor \<Rightarrow> tensor \<Rightarrow> tensor" where
  "tsub a b = map2 (map2 (\<lambda>x y. x - y)) a b"

definition tadd :: "tensor \<Rightarrow> tensor \<Rightarrow> tensor" where
  "tadd a b = map2 (map2 (\<lambda>x y. x + y)) a b"

definition tscale :: "real \<Rightarrow> tensor \<Rightarrow> tensor" where
  "tscale c t = map (map (\<lambda>x. c * x)) t"

text \<open>\<open>torch.norm(t)\<close>: the Euclidean norm over all elements.\<close>

definition l2norm :: "tensor \<Rightarrow> real" where
  "l2norm t = sqrt (sum_list (map (\<lambda>x. x * x) (concat t)))"

text \<open>
  \<open>torch.sum(torch.abs(t), dim=tuple(range(1, t.dim())), keepdim=True)\<close>: one sum of absolute
  values per slice of the leading dimension.
\<close>

definition mars_norm :: "tensor \<Rightarrow> real list" where
  "mars_norm t = map (\<lambda>row. sum_list (map abs row)) t"

text \<open>
  A projection ratio is a tensor of one element under the l2 norm and a column of one element
  per slice otherwise; multiplying or dividing a tensor by it broadcasts along the slices.
\<close>

datatype ratio = Scalar real | PerRow "real list"

fun tmul :: "tensor \<Rightarrow> ratio \<Rightarrow> tensor" where
  "tmul t (Scalar a) = map (map (\<lambda>x. x * a)) t"
| "tmul t (PerRow as) = map2 (\<lambda>row a. map (\<lambda>x. x * a) row) t as"

fun tdiv :: "tensor \<Rightarrow> ratio \<Rightarrow> tensor" where
  "tdiv t (Scalar a) = map (map (\<lambda>x. x / a)) t"
| "tdiv t (PerRow as) = map2 (\<lambda>row a. map (\<lambda>x. x / a) row) t as"

text \<open>
  Whether dividing \<open>t\<close> by the ratio divides some element by zero. Torch then stores inf or
  nan and goes on; reals have neither, so the operations below stop with \<open>NonFinite\<close> there.
\<close>

fun divides_by_zero :: "tensor \<Rightarrow> ratio \<Rightarrow> bool" where
  "divides_by_zero t (Scalar a) = (a = 0 \<and> concat t \<noteq> [])"
| "divides_by_zero t (PerRow as) = list_ex (\<lambda>(row, a). a = 0 \<and> row \<noteq> []) (zip t as)"

section \<open>Errors\<close>

text \<open>
  The Python exceptions the modelled code can raise, and \<open>NonFinite\<close>, which is not an
  exception: it stands for a run in which a division by zero has put inf or nan into a
  tensor or a scalar.
\<close>

datatype error = StopIteration | IndexError | KeyError | AssertionError | TypeError
  | ZeroDivisionError | NonFinite

definition bindE :: "error + 'a \<Rightarrow> ('a \<Rightarrow> error + 'b) \<Rightarrow> error + 'b" where
  "bindE m f = (case m of Inl e \<Rightarrow> Inl e | Inr x \<Rightarrow> f x)"

text \<open>
  An operation that mutates its arguments in place returns, with an error, the state in which
  the exception left them. A caller that does not catch the exception passes it on.
\<close>

definition raised :: "(error \<times> 's) + 'a \<Rightarrow> error + 'a" where
  "raised m = (case m of Inl (e, s) \<Rightarrow> Inl e | Inr x \<Rightarrow> Inr x)"

section \<open>Loss accumulation in the outer training loop\<close>

text \<open>
  The accumulated loss \<open>tr_loss\<close> is a float32 tensor of one element
  (\<open>torch.tensor(0.0)\<close>) and the step loss a floating-point tensor of one element. A loss
  value is a real number or one of the three non-finite values. Rounding to the nearest
  float32 is not represented; overflow is: a sum or quotient whose magnitude reaches
  \<open>2^128 - 2^103\<close>, the least magnitude that float32 rounds to infinity, is infinite.
\<close>

datatype fl = Fin real | PInf | NInf | NaN











section \<open>The random generator\<close>

text \<open>
  Torch's global generator is not part of the repository. It is a parameter of the model:
  \<open>seed_gen s\<close> is the generator state after \<open>torch.manual_seed(s)\<close>, a call of
  \<open>torch.normal\<close> for a tensor of shape \<open>shp\<close> in state \<open>g\<close> returns the tensor whose element
  \<open>j\<close> of slice \<open>i\<close> is \<open>sample g shp i j\<close> and leaves the generator in state \<open>advance g shp\<close>.
  The device and the dtype of the request are attributes of the parameter that no modelled
  operation changes; they are not represented.
\<close>

record 'g rng =
  seed_gen :: "int \<Rightarrow> 'g"
  sample :: "'g \<Rightarrow> nat list \<Rightarrow> nat \<Rightarrow> nat \<Rightarrow> real"
  advance :: "'g \<Rightarrow> nat list \<Rightarrow> 'g"

definition normal :: "'g rng \<Rightarrow> 'g \<Rightarrow> nat list \<Rightarrow> tensor" where
  "normal r g shp = map (\<lambda>(i, n). map (sample r g shp i) [0..<n]) (enumerate 0 shp)"

section \<open>DiZO: the projection onto the trust region\<close>

record param =
  pname :: string
  data :: tensor
  requires_grad :: bool

text \<open>
  The state of a \<open>DiZO\<close> object. \<open>constraints\<close> holds the value of each radius, in the order of
  the \<open>ParameterList\<close>; the name \<open>named_parameters()\<close> gives a radius is its position.
\<close>

record DiZO =
  norm_mode :: string
  exclude_list :: "string list"
  constraints :: "real list"
  init :: bool
  alpha :: "string \<rightharpoonup> ratio"
  include_list :: "string list"

text \<open>
  \<open>_project_ratio\<close>. The constraint iterator is the list of the radii not yet consumed;
  \<open>next\<close> on an exhausted iterator raises \<open>StopIteration\<close>.
\<close>

definition project_ratio :: "DiZO \<Rightarrow> tensor \<Rightarrow> tensor \<Rightarrow> real list \<Rightarrow> error + (ratio \<times> real list)" where
  "project_ratio st new anchor constraint_iterator =
     (let t = tsub new anchor in
      case constraint_iterator of
        [] \<Rightarrow> Inl StopIteration
      | constraint # rest \<Rightarrow>
          Inr (if sublist ''l2'' (norm_mode st)
               then Scalar (constraint / (l2norm t + 1 / 10 ^ 8))
               else PerRow (map (\<lambda>n. constraint / (n + 1 / 10 ^ 8)) (mars_norm t)),
               rest))"

text \<open>
  The loop of \<open>apply_constraints\<close> over \<open>zip(new.named_parameters(), pre_trained.parameters())\<close>:
  it ends with the shorter list, and the parameters of \<open>new\<close> beyond it stay as they are.
  The radii are parameters created with \<open>requires_grad=True\<close> (line 254), so the ratio and
  \<open>temp\<close> are recorded by autograd whenever gradient recording is enabled; \<open>copy_\<close> outside
  \<open>no_grad\<close> then makes the parameter it writes require a gradient again. \<open>track\<close> tells
  whether this is the case.
\<close>

fun apply_loop :: "DiZO \<Rightarrow> param list \<Rightarrow> param list \<Rightarrow> real list \<Rightarrow> bool
    \<Rightarrow> (error \<times> DiZO \<times> param list) + (DiZO \<times> param list)" where
  "apply_loop st (p # ps) (a # as) it track =
     (let p1 = p\<lparr>requires_grad := False\<rparr> in
      if pname p \<notin> set (exclude_list st) then
        (case project_ratio st (data p1) (data a) it of
           Inl e \<Rightarrow> Inl (e, st, p1 # ps)
         | Inr (al, it1) \<Rightarrow>
             (let st1 = st\<lparr>alpha := (alpha st)(pname p \<mapsto> al),
                           include_list := include_list st @ [pname p]\<rparr>;
                  v = tmul (tsub (data p1) (data a)) al;
                  temp = tadd v (data a);
                  p2 = p1\<lparr>data := temp, requires_grad := track\<rparr>
              in case apply_loop st1 ps as it1 track of
                   Inl (e, st2, ps1) \<Rightarrow> Inl (e, st2, p2 # ps1)
                 | Inr (st2, ps1) \<Rightarrow> Inr (st2, p2 # ps1)))
      else (case apply_loop st ps as it track of
              Inl (e, st2, ps1) \<Rightarrow> Inl (e, st2, p1 # ps1)
            | Inr (st2, ps1) \<Rightarrow> Inr (st2, p1 # ps1)))"
| "apply_loop st ps as it track = Inr (st, ps)"

text \<open>
  \<open>apply_constraints\<close>; \<open>grad_enabled\<close> is what \<open>torch.is_grad_enabled()\<close> returns when it is
  called. Both branches on \<open>apply\<close> copy the same tensor into the parameter, the first under
  \<open>no_grad\<close>; \<open>see\<close> is not read.
\<close>

definition apply_constraints :: "DiZO \<Rightarrow> param list \<Rightarrow> param list \<Rightarrow> real list \<Rightarrow> bool \<Rightarrow> bool
    \<Rightarrow> bool \<Rightarrow> (error \<times> DiZO \<times> param list) + (DiZO \<times> param list)" where
  "apply_constraints st new pre_trained constraint_iterator apply see grad_enabled =
     apply_loop (st\<lparr>include_list := [], alpha := Map.empty\<rparr>) new pre_trained constraint_iterator
       (grad_enabled \<and> \<not> apply)"

text \<open>\<open>reverse_constraints\<close>: every copy is under \<open>no_grad\<close>.\<close>

fun reverse_loop :: "DiZO \<Rightarrow> param list \<Rightarrow> param list \<Rightarrow> (error \<times> param list) + param list" where
  "reverse_loop st (p # ps) (a # as) =
     (let p1 = p\<lparr>requires_grad := False\<rparr> in
      if pname p \<notin> set (exclude_list st) then
        (case alpha st (pname p) of
           None \<Rightarrow> Inl (KeyError, p1 # ps)
         | Some al \<Rightarrow>
             if divides_by_zero (tsub (data p1) (data a)) al then Inl (NonFinite, p1 # ps)
             else
               (let v = tdiv (tsub (data p1) (data a)) al;
                    temp = tadd v (data a)
                in case reverse_loop st ps as of
                     Inl (e, ps1) \<Rightarrow> Inl (e, p1\<lparr>data := temp\<rparr> # ps1)
                   | Inr ps1 \<Rightarrow> Inr (p1\<lparr>data := temp\<rparr> # ps1)))
      else (case reverse_loop st ps as of
              Inl (e, ps1) \<Rightarrow> Inl (e, p1 # ps1)
            | Inr ps1 \<Rightarrow> Inr (p1 # ps1)))"
| "reverse_loop st ps as = Inr ps"

definition reverse_constraints :: "DiZO \<Rightarrow> param list \<Rightarrow> param list
    \<Rightarrow> (error \<times> param list) + param list" where
  "reverse_constraints st new pre_trained = reverse_loop st new pre_trained"

section \<open>DiZO: zeroth-order adaptation of the radii\<close>

text \<open>
  The list \<open>ts\<close> of \<open>DiZO.zo_forward\<close>: the Euclidean norm of the deviation from the anchor,
  one entry per parameter that is not excluded, whatever the norm mode.
\<close>

definition deviation_norms :: "DiZO \<Rightarrow> param list \<Rightarrow> param list \<Rightarrow> real list" where
  "deviation_norms st new pre_trained =
     map (\<lambda>(p, a). l2norm (tsub (data p) (data a)))
       (filter (\<lambda>(p, a). pname p \<notin> set (exclude_list st)) (zip new pre_trained))"

text \<open>
  The loop under \<open>if self.init\<close>: radius \<open>i\<close> becomes \<open>ts[i]\<close>; \<open>ts[i]\<close> raises \<open>IndexError\<close>
  when \<open>ts\<close> is shorter than the list of radii.
\<close>

fun init_gamma :: "real list \<Rightarrow> real list \<Rightarrow> error + real list" where
  "init_gamma [] ts = Inr []"
| "init_gamma (gamma # cs) [] = Inl IndexError"
| "init_gamma (gamma # cs) (t # ts) =
     (case init_gamma cs ts of Inl e \<Rightarrow> Inl e | Inr cs1 \<Rightarrow> Inr (t # cs1))"

text \<open>
  \<open>perturb_gamma\<close> without \<open>zs\<close>: one draw of size \<open>(1,)\<close> per radius from the global generator,
  scaled by \<open>ts[i]\<close>. The dictionary \<open>zs\<close> is keyed by the radius names, which are the
  positions, so it is the list of its values in that order.
\<close>

fun perturb_gamma_draw :: "'g rng \<Rightarrow> real \<Rightarrow> real list \<Rightarrow> 'g \<Rightarrow> real list
    \<Rightarrow> error + (real list \<times> real list \<times> 'g)" where
  "perturb_gamma_draw r delta ts g [] = Inr ([], [], g)"
| "perturb_gamma_draw r delta [] g (gamma # cs) = Inl IndexError"
| "perturb_gamma_draw r delta (t # ts) g (gamma # cs) =
     (let z = t * sample r g [1] 0 0 in
      case perturb_gamma_draw r delta ts (advance r g [1]) cs of
        Inl e \<Rightarrow> Inl e
      | Inr (zs, cs1, g1) \<Rightarrow> Inr (z # zs, (gamma + delta * z * 0.2) # cs1, g1))"

text \<open>\<open>perturb_gamma\<close> with \<open>zs\<close> given: \<open>zs[name]\<close> raises \<open>KeyError\<close> for a missing name.\<close>

fun perturb_gamma_pre :: "real \<Rightarrow> real list \<Rightarrow> real list \<Rightarrow> error + real list" where
  "perturb_gamma_pre delta zs [] = Inr []"
| "perturb_gamma_pre delta [] (gamma # cs) = Inl KeyError"
| "perturb_gamma_pre delta (z # zs) (gamma # cs) =
     (case perturb_gamma_pre delta zs cs of
        Inl e \<Rightarrow> Inl e
      | Inr cs1 \<Rightarrow> Inr ((gamma + delta * z * 0.2) # cs1))"

text \<open>
  \<open>perturb_gamma(delta, ts, zs)\<close>: returns \<open>zs\<close>, the radii and the generator state. With
  neither \<open>ts\<close> nor \<open>zs\<close>, subscripting \<open>None\<close> raises \<open>TypeError\<close> at the first radius.
\<close>

definition perturb_gamma :: "'g rng \<Rightarrow> real \<Rightarrow> real list option \<Rightarrow> real list option \<Rightarrow> 'g
    \<Rightarrow> real list \<Rightarrow> error + (real list \<times> real list \<times> 'g)" where
  "perturb_gamma r delta ts zs g cs =
     (case zs of
        None \<Rightarrow>
          (case ts of
             None \<Rightarrow> (if cs = [] then Inr ([], [], g) else Inl TypeError)
           | Some ts1 \<Rightarrow> perturb_gamma_draw r delta ts1 g cs)
      | Some zs1 \<Rightarrow>
          bindE (perturb_gamma_pre delta zs1 cs) (\<lambda>cs1. Inr (zs1, cs1, g)))"

definition clip :: "real \<Rightarrow> real \<Rightarrow> real \<Rightarrow> real" where
  "clip x lo hi = min (max x lo) hi"

text \<open>The last loop of \<open>DiZO.zo_forward\<close>, with \<open>tau = 0.2\<close>.\<close>

fun update_gamma :: "real \<Rightarrow> real list \<Rightarrow> real list \<Rightarrow> real list \<Rightarrow> error + real list" where
  "update_gamma grad [] zs ts = Inr []"
| "update_gamma grad (gamma # cs) [] ts = Inl KeyError"
| "update_gamma grad (gamma # cs) (z # zs) [] = Inl IndexError"
| "update_gamma grad (gamma # cs) (z # zs) (t # ts) =
     (let tau = 0.2 in
      case update_gamma grad cs zs ts of
        Inl e \<Rightarrow> Inl e
      | Inr cs1 \<Rightarrow> Inr (clip (gamma - 10 * grad * z) ((1 - tau) * t) ((1 + tau) * t) # cs1))"

text \<open>
  The loss \<open>forward_wrap_with_option_len(new, **x, return_dict=True).loss\<close> is a parameter
  \<open>loss\<close> of the model: a real number for each batch and each state of the parameters.
  Unpacking \<open>x = None\<close> raises \<open>TypeError\<close>.
\<close>

definition forward_loss :: "('b \<Rightarrow> param list \<Rightarrow> real) \<Rightarrow> param list \<Rightarrow> 'b option \<Rightarrow> error + real" where
  "forward_loss loss new x = (case x of None \<Rightarrow> Inl TypeError | Some b \<Rightarrow> Inr (loss b new))"

text \<open>
  \<open>DiZO.zo_forward\<close>; \<open>g\<close> is the state of the global generator and \<open>grad_enabled\<close> what
  \<open>torch.is_grad_enabled()\<close> returns when it is called. All of the second branch is under
  \<open>no_grad\<close>.
\<close>

definition dizo_zo_forward :: "'g rng \<Rightarrow> ('b \<Rightarrow> param list \<Rightarrow> real) \<Rightarrow> DiZO \<Rightarrow> param list
    \<Rightarrow> param list \<Rightarrow> 'b option \<Rightarrow> bool \<Rightarrow> 'g \<Rightarrow> bool
    \<Rightarrow> error + (DiZO \<times> param list \<times> 'g)" where
  "dizo_zo_forward r loss st new pre_trained x apply g grad_enabled =
     (if apply then
        bindE (raised (apply_constraints st new pre_trained (constraints st) apply False
                        grad_enabled))
          (\<lambda>(st1, new1). Inr (st1, new1, g))
      else
        (let ts = deviation_norms st new pre_trained in
         bindE (if init st then init_gamma (constraints st) ts else Inr (constraints st)) (\<lambda>cs0.
         bindE (perturb_gamma r 1 (Some ts) None g cs0) (\<lambda>(zs, cs1, g1).
         bindE (raised (apply_constraints (st\<lparr>constraints := cs1\<rparr>) new pre_trained cs1 False False
                         False))
           (\<lambda>(st1, new1).
         bindE (forward_loss loss new1 x) (\<lambda>loss1.
         bindE (raised (reverse_constraints st1 new1 pre_trained)) (\<lambda>new2.
         bindE (perturb_gamma r (- 2) None (Some zs) g1 cs1) (\<lambda>(zs2, cs2, g2).
         bindE (raised (apply_constraints (st1\<lparr>constraints := cs2\<rparr>) new2 pre_trained cs2 False True
                         False))
           (\<lambda>(st2, new3).
         bindE (forward_loss loss new3 x) (\<lambda>loss2.
         bindE (raised (reverse_constraints st2 new3 pre_trained)) (\<lambda>new4.
         bindE (perturb_gamma r 1 None (Some zs) g2 cs2) (\<lambda>(zs3, cs3, g3).
         (let grad = (loss1 - loss2) / 0.4 in
          bindE (update_gamma grad cs3 zs ts) (\<lambda>cs4.
          Inr (st2\<lparr>constraints := cs4\<rparr>, new4, g3)))))))))))))))"

section \<open>The trust-region trainer\<close>

text \<open>
  The state of a \<open>dizo_trainer\<close> object. The loader \<open>pgmloader\<close> is the list of batches one
  pass over it yields and \<open>dataset_iterator\<close> the batches the current pass has left; the
  field \<open>i\<close> of the source is \<open>i_calls\<close>.
\<close>

record 'b dizo_trainer =
  dizo :: DiZO
  pre_trained :: "param list"
  pgmloader :: "'b list"
  dataset_iterator :: "'b list"
  max_iters :: nat
  count :: nat
  i_calls :: nat

text \<open>
  \<open>next(self.dataset_iterator)\<close>, restarting the loader once when it is exhausted; the
  second \<open>next\<close> raises \<open>StopIteration\<close> when the loader has no batch.
\<close>

definition next_batch :: "'b dizo_trainer \<Rightarrow> error + ('b \<times> 'b dizo_trainer)" where
  "next_batch tr =
     (case dataset_iterator tr of
        x # rest \<Rightarrow> Inr (x, tr\<lparr>dataset_iterator := rest\<rparr>)
      | [] \<Rightarrow>
          (case pgmloader tr of
             [] \<Rightarrow> Inl StopIteration
           | x # rest \<Rightarrow> Inr (x, tr\<lparr>dataset_iterator := rest\<rparr>)))"

lemma next_batch_count:
  "next_batch tr = Inr (x, tr1) \<Longrightarrow> count tr1 = count tr \<and> max_iters tr1 = max_iters tr"
  by (auto simp: next_batch_def split: list.splits)

text \<open>The \<open>while self.count < self.max_iters\<close> loop of \<open>dizo_zo_iters\<close>.\<close>

function zo_iters_loop :: "'g rng \<Rightarrow> ('b \<Rightarrow> param list \<Rightarrow> real) \<Rightarrow> 'b dizo_trainer \<Rightarrow> param list
    \<Rightarrow> param list \<Rightarrow> 'g \<Rightarrow> bool \<Rightarrow> error + ('b dizo_trainer \<times> param list \<times> 'g)" where
  "zo_iters_loop r loss tr model base_model g grad_enabled =
     (if count tr < max_iters tr then
        (case next_batch tr of
           Inl e \<Rightarrow> Inl e
         | Inr (x, tr1) \<Rightarrow>
             (case dizo_zo_forward r loss (dizo tr1) model base_model (Some x) False g grad_enabled of
                Inl e \<Rightarrow> Inl e
              | Inr (d, model1, g1) \<Rightarrow>
                  zo_iters_loop r loss (tr1\<lparr>dizo := d\<lparr>init := False\<rparr>, count := count tr1 + 1\<rparr>)
                    model1 base_model g1 grad_enabled))
      else Inr (tr, model, g))"
  by pat_completeness auto
termination
  by (relation "measure (\<lambda>(r, loss, tr, model, base_model, g, grad_enabled).
                         max_iters tr - count tr)")
     (auto dest: next_batch_count)

text \<open>\<open>dizo_zo_iters\<close>: the inner iterations, then the projection of the model itself.\<close>

definition dizo_zo_iters :: "'g rng \<Rightarrow> ('b \<Rightarrow> param list \<Rightarrow> real) \<Rightarrow> 'b dizo_trainer \<Rightarrow> param list
    \<Rightarrow> param list \<Rightarrow> bool \<Rightarrow> 'g \<Rightarrow> bool \<Rightarrow> error + ('b dizo_trainer \<times> param list \<times> 'g)" where
  "dizo_zo_iters r loss tr model base_model apply g grad_enabled =
     bindE (if \<not> apply
            then zo_iters_loop r loss (tr\<lparr>count := 0, dizo := (dizo tr)\<lparr>init := True\<rparr>\<rparr>)
                   model base_model g grad_enabled
            else Inr (tr, model, g))
       (\<lambda>(tr1, model1, g1).
     bindE (dizo_zo_forward r loss (dizo tr1) model1 (pre_trained tr1) None True g1 grad_enabled)
       (\<lambda>(d, model2, g2).
     Inr (tr1\<lparr>dizo := d, i_calls := i_calls tr1 + 1\<rparr>, model2, g2)))"

text \<open>
  \<open>dizo_iters\<close>, the first-order variant. Its first inner iteration calls the module with the
  keyword \<open>quant\<close>, which \<open>DiZO.forward\<close> does not accept, so \<open>TypeError\<close> is raised as soon as
  a batch has been fetched; with no inner iteration, only \<open>DiZO.forward\<close> with \<open>apply=True\<close>
  runs, which is \<open>apply_constraints\<close> on the model.
\<close>

definition dizo_iters :: "'b dizo_trainer \<Rightarrow> param list \<Rightarrow> param list \<Rightarrow> bool \<Rightarrow> bool
    \<Rightarrow> error + ('b dizo_trainer \<times> param list)" where
  "dizo_iters tr model base_model apply grad_enabled =
     bindE (if \<not> apply
            then (let tr0 = tr\<lparr>count := 0\<rparr> in
                  if count tr0 < max_iters tr0
                  then bindE (next_batch tr0) (\<lambda>(x, tr1). Inl TypeError)
                  else Inr tr0)
            else Inr tr)
       (\<lambda>tr1.
     bindE (raised (apply_constraints (dizo tr1) model (pre_trained tr1) (constraints (dizo tr1))
              True False grad_enabled))
       (\<lambda>(d, model1).
     Inr (tr1\<lparr>dizo := d, i_calls := i_calls tr1 + 1\<rparr>, model1)))"

section \<open>The zeroth-order estimator of the trainer\<close>

datatype enhanced_mode = Enhanced_zo | Enhanced_fo

text \<open>
  The part of the state of \<open>OurTrainer\<close> that \<open>zo_step\<close> and \<open>zo_update\<close> read and write.
  \<open>model\<close> is \<open>model.named_parameters()\<close> in order; the names of a module's parameters are
  distinct. \<open>named_parameters_to_optim\<close> holds references to parameter objects of the model,
  collected in the order of the model; it is the list of their names, and a loop over it
  visits the parameters of the model in order and acts on those it names. \<open>projected_grad\<close>
  is a Python float. \<open>learning_rate\<close> is what \<open>_get_learning_rate()\<close> returns, \<open>initial_lr\<close>
  the learning rate the scheduler scales, \<open>gen\<close> the state of torch's global generator.
  \<open>forward_passes\<close> is not a field of the source: it counts the calls of \<open>zo_forward\<close>.
\<close>

record ('g, 'b) trainer =
  model :: "param list"
  named_parameters_to_optim :: "string list"
  zo_random_seed :: int
  projected_grad :: fl
  zo_eps :: real
  weight_decay :: real
  learning_rate :: real
  initial_lr :: real
  max_steps :: int
  gradient_accumulation_steps :: int
  global_step :: int
  enhanced :: "enhanced_mode option"
  base_model :: "param list"
  dizo_tr :: "'b dizo_trainer"
  gen :: 'g
  forward_passes :: nat

text \<open>
  The loop of \<open>zo_perturb_parameters\<close>: one draw per optimised parameter, in order. Besides
  the parameters and the generator it returns the tensors \<open>z\<close> it has drawn, which the source
  keeps in a local variable: one entry per parameter of the model, \<open>None\<close> for a parameter
  that is not optimised.
\<close>

fun perturb_loop :: "'g rng \<Rightarrow> string list \<Rightarrow> real \<Rightarrow> real \<Rightarrow> 'g \<Rightarrow> param list
    \<Rightarrow> param list \<times> tensor option list \<times> 'g" where
  "perturb_loop r optim scaling_factor eps g [] = ([], [], g)"
| "perturb_loop r optim scaling_factor eps g (p # ps) =
     (if pname p \<in> set optim then
        (let z = normal r g (shape (data p));
             p1 = p\<lparr>data := tadd (data p) (map (map (\<lambda>x. scaling_factor * x * eps)) z)\<rparr>;
             (ps1, zs, g1) = perturb_loop r optim scaling_factor eps (advance r g (shape (data p))) ps
         in (p1 # ps1, Some z # zs, g1))
      else (let (ps1, zs, g1) = perturb_loop r optim scaling_factor eps g ps
            in (p # ps1, None # zs, g1)))"




text \<open>
  The parameter loop of \<open>zo_update\<close>, for a finite projected gradient \<open>pg\<close>; like
  \<open>perturb_loop\<close> it returns the tensors \<open>z\<close> it has drawn.
\<close>

fun update_loop :: "'g rng \<Rightarrow> string list \<Rightarrow> real \<Rightarrow> real \<Rightarrow> real \<Rightarrow> 'g \<Rightarrow> param list
    \<Rightarrow> param list \<times> tensor option list \<times> 'g" where
  "update_loop r optim lr pg wd g [] = ([], [], g)"
| "update_loop r optim lr pg wd g (p # ps) =
     (if pname p \<in> set optim then
        (let z = normal r g (shape (data p));
             p1 = (if \<not> sublist ''bias'' (pname p) \<and> \<not> sublist ''layer_norm'' (pname p)
                      \<and> \<not> sublist ''layernorm'' (pname p)
                   then p\<lparr>data := map2 (map2 (\<lambda>x zx. x - lr * (pg * zx + wd * x))) (data p) z\<rparr>
                   else p\<lparr>data := map2 (map2 (\<lambda>x zx. x - lr * (pg * zx))) (data p) z\<rparr>);
             (ps1, zs, g1) = update_loop r optim lr pg wd (advance r g (shape (data p))) ps
         in (p1 # ps1, Some z # zs, g1))
      else (let (ps1, zs, g1) = update_loop r optim lr pg wd g ps in (p # ps1, None # zs, g1)))"

text \<open>
  Lines 1333--1343 of \<open>zo_update\<close>: the generator is seeded again with the seed of the step
  and the loop runs over the optimised parameters. With a projected gradient that is inf or
  nan the loop writes nan into the parameters; the model stops with \<open>NonFinite\<close> there.
\<close>

definition zo_update_parameters :: "'g rng \<Rightarrow> ('g, 'b) trainer \<Rightarrow> error + ('g, 'b) trainer" where
  "zo_update_parameters r st =
     (case projected_grad st of
        Fin pg \<Rightarrow>
          (let g0 = seed_gen r (zo_random_seed st);
               (m1, zs, g1) = update_loop r (named_parameters_to_optim st) (learning_rate st) pg
                                (weight_decay st) g0 (model st)
           in Inr (st\<lparr>model := m1, gen := g1\<rparr>))
      | _ \<Rightarrow> Inl NonFinite)"

text \<open>
  \<open>self.lr_scheduler.step()\<close> for the \<open>LambdaLR\<close> with factor
  \<open>1 - global_step / (2 * max_steps)\<close>, a division of Python integers.
\<close>

definition lr_scheduler_step :: "('g, 'b) trainer \<Rightarrow> error + ('g, 'b) trainer" where
  "lr_scheduler_step st =
     (if 2 * max_steps st = 0 then Inl ZeroDivisionError
      else Inr (st\<lparr>learning_rate :=
                  initial_lr st * (1 - real_of_int (global_step st) / real_of_int (2 * max_steps st))\<rparr>))"

text \<open>
  \<open>zo_update\<close>: the update of the parameters, every 50 steps the trust-region trainer, and
  the step of the scheduler; \<open>dizo_loss\<close> is the loss the trust-region trainer evaluates
  and \<open>grad_enabled\<close> what \<open>torch.is_grad_enabled()\<close> returns during the call.
\<close>

definition zo_update :: "'g rng \<Rightarrow> ('b \<Rightarrow> param list \<Rightarrow> real) \<Rightarrow> ('g, 'b) trainer \<Rightarrow> bool
    \<Rightarrow> error + ('g, 'b) trainer" where
  "zo_update r dizo_loss st grad_enabled =
     bindE (zo_update_parameters r st) (\<lambda>st1.
     bindE
       (if (global_step st1 + 1) mod 50 = 0 \<and> enhanced st1 \<noteq> None then
          (if enhanced st1 = Some Enhanced_zo then
             bindE (dizo_zo_iters r dizo_loss (dizo_tr st1) (model st1) (base_model st1)
                      False (gen st1) grad_enabled)
               (\<lambda>(tr, m2, g2). Inr (st1\<lparr>dizo_tr := tr, model := m2, gen := g2\<rparr>))
           else
             bindE (dizo_iters (dizo_tr st1) (model st1) (base_model st1) False grad_enabled)
               (\<lambda>(tr, m2). Inr (st1\<lparr>dizo_tr := tr, model := m2\<rparr>)))
        else Inr st1)
       lr_scheduler_step)"

section \<open>Example values\<close>


definition example_param :: "string \<Rightarrow> tensor \<Rightarrow> bool \<Rightarrow> param" where
  "example_param n t rg = \<lparr>pname = n, data = t, requires_grad = rg\<rparr>"

text \<open>
  A generator whose state is an integer: seeding gives the seed, every element of a draw is
  the state, and a draw advances the state by one. The loss of a model is the sum of the
  elements of its parameters.
\<close>

definition example_rng :: "int rng" where
  "example_rng =
     \<lparr>seed_gen = (\<lambda>s. s), sample = (\<lambda>g shp i j. real_of_int g), advance = (\<lambda>g shp. g + 1)\<rparr>"



section \<open>Properties of the loss accumulation\<close>





section \<open>The projection clears \<open>requires_grad\<close>\<close>







section \<open>The zeroth-order step\<close>

lemma shape_normal: "shape (normal r g shp) = shp"
  by (simp add: normal_def shape_def comp_def case_prod_unfold enumerate_eq_zip map_idI)

lemma shape_map_map: "shape (map (map f) z) = shape z"
  by (simp add: shape_def comp_def)





lemma shape_tadd: "shape b = shape a \<Longrightarrow> shape (tadd a b) = shape a"
proof (induction a arbitrary: b)
  case Nil
  then show ?case by (simp add: tadd_def shape_def)
next
  case (Cons ar a)
  then obtain br b' where b: "b = br # b'" by (cases b) (auto simp: shape_def)
  with Cons.prems have l: "length br = length ar" and s: "shape b' = shape a"
    by (simp_all add: shape_def)
  from Cons.IH [OF s] l show ?case
    unfolding b by (simp add: tadd_def shape_def)
qed

lemma shape_perturbed:
  "shape (tadd a (map (map (\<lambda>x. c * x * e)) (normal r g (shape a)))) = shape a"
  by (simp add: shape_tadd shape_map_map shape_normal)










section \<open>The noise of a step\<close>

lemma noise_same:
  "map pname m = map pname m' \<Longrightarrow> map (\<lambda>p. shape (data p)) m = map (\<lambda>p. shape (data p)) m' \<Longrightarrow>
   snd (perturb_loop r optim c e g m) = snd (perturb_loop r optim c' e' g m')
   \<and> snd (update_loop r optim lr pg wd g m') = snd (perturb_loop r optim c e g m)"
proof (induction m arbitrary: m' g)
  case Nil
  then show ?case by simp
next
  case (Cons p ps)
  then obtain p' ps' where m': "m' = p' # ps'" by (cases m') auto
  with Cons.prems have n: "pname p' = pname p" and s: "shape (data p') = shape (data p)"
    and ns: "map pname ps = map pname ps'" and ss: "map (\<lambda>p. shape (data p)) ps = map (\<lambda>p. shape (data p)) ps'"
    by simp_all
  show ?case
  proof (cases "pname p \<in> set optim")
    case True
    from Cons.IH [OF ns ss, of "advance r g (shape (data p))"] True show ?thesis
      unfolding m' by (simp add: Let_def case_prod_unfold n s)
  next
    case False
    from Cons.IH [OF ns ss, of g] False show ?thesis
      unfolding m' by (simp add: Let_def case_prod_unfold n s)
  qed
qed

lemma perturb_loop_names_shapes:
  "map pname (fst (perturb_loop r optim c e g m)) = map pname m
   \<and> map (\<lambda>p. shape (data p)) (fst (perturb_loop r optim c e g m)) = map (\<lambda>p. shape (data p)) m"
proof (induction m arbitrary: g)
  case Nil
  then show ?case by simp
next
  case (Cons p ps)
  show ?case
  proof (cases "pname p \<in> set optim")
    case True
    from Cons.IH [of "advance r g (shape (data p))"] True show ?thesis
      by (simp add: Let_def case_prod_unfold shape_perturbed)
  next
    case False
    from Cons.IH [of g] False show ?thesis
      by (simp add: Let_def case_prod_unfold)
  qed
qed

text \<open>
  C3: the draw of a step is a function of the seed and of the list of parameters. For two
  models whose parameters have the same names and the same shapes in the same order, and any
  seed, the loop of \<open>zo_perturb_parameters\<close> run on the one and on the other (with any scaling
  factors and perturbation scales) and the loop of \<open>zo_update\<close> draw the same tensors \<open>z\<close>,
  parameter by parameter, and leave the generator in the same state. A perturbation keeps
  the names and the shapes, so this holds for every regeneration within a step. Tensors have
  real elements, so identical means equal; devices and dtypes are not represented.
\<close>

theorem zo_noise_two_runs:
  assumes "map pname m = map pname m'" and "map (\<lambda>p. shape (data p)) m = map (\<lambda>p. shape (data p)) m'"
  shows "snd (perturb_loop r optim c e (seed_gen r s) m)
           = snd (perturb_loop r optim c' e' (seed_gen r s) m')
       \<and> snd (update_loop r optim lr pg wd (seed_gen r s) m')
           = snd (perturb_loop r optim c e (seed_gen r s) m)
       \<and> map pname (fst (perturb_loop r optim c e (seed_gen r s) m)) = map pname m
       \<and> map (\<lambda>p. shape (data p)) (fst (perturb_loop r optim c e (seed_gen r s) m))
           = map (\<lambda>p. shape (data p)) m"
  using noise_same [OF assms, of r optim c e "seed_gen r s" c' e' lr pg wd]
    perturb_loop_names_shapes [of r optim c e "seed_gen r s" m]
  by simp

theorem zo_noise_two_runs_witness:
  "snd (perturb_loop example_rng [''w''] 1 (1 / 2) (seed_gen example_rng 3)
          [example_param ''w'' [[1, 2]] True, example_param ''b'' [[5]] False])
     = ([Some [[3, 3]], None], 4)
   \<and> snd (perturb_loop example_rng [''w''] (- 2) (1 / 2) (seed_gen example_rng 3)
            [example_param ''w'' [[5 / 2, 7 / 2]] True, example_param ''b'' [[5]] False])
     = ([Some [[3, 3]], None], 4)
   \<and> snd (update_loop example_rng [''w''] (1 / 10) 6 0 (seed_gen example_rng 3)
            [example_param ''w'' [[5 / 2, 7 / 2]] True, example_param ''b'' [[5]] False])
     = ([Some [[3, 3]], None], 4)"
proof -
  have "map pname [example_param ''w'' [[1, 2]] True, example_param ''b'' [[5]] False]
        = map pname [example_param ''w'' [[5 / 2, 7 / 2]] True, example_param ''b'' [[5]] False]"
    and "map (\<lambda>p. shape (data p)) [example_param ''w'' [[1, 2]] True, example_param ''b'' [[5]] False]
        = map (\<lambda>p. shape (data p))
            [example_param ''w'' [[5 / 2, 7 / 2]] True, example_param ''b'' [[5]] False]"
    by (simp_all add: example_param_def shape_def)
  from zo_noise_two_runs [OF this, of example_rng "[''w'']" 1 "1 / 2" 3 "- 2" "1 / 2" "1 / 10" 6 0]
  show ?thesis
    by (simp add: example_rng_def example_param_def normal_def shape_def Let_def)
qed

section \<open>The update of the parameters\<close>






end
